theory Spec2Isabelle
  imports Main
begin

section \<open>Sea Battle: game state, ships and targeting AI\<close>

text \<open>
  A shallow embedding of the classes \<open>GameConfig\<close>, \<open>Ship\<close>, \<open>GameState\<close> and
  \<open>GameAI\<close> of the refactored Sea Battle game.

  JavaScript objects have identity: a \<open>Set\<close> of objects finds a member by reference, not
  by its fields. A coordinate object is therefore a record of an identity tag \<open>oid\<close>
  and its two fields; the code never assigns to the fields of a coordinate, so the
  fields travel with the reference, and two references denote the same object exactly
  when the records are equal. Every \<open>{row, col}\<close> literal the code evaluates takes the next
  unused tag from the counter \<open>nextId\<close>. Numbers are integers, as the coordinates of the
  board are.

  Ships are mutable objects shared by reference, so they live in a store
  (\<open>heap\<close>, from addresses to ships) and a fleet is an array of addresses.
  \<open>Math.random()\<close> is an explicit source \<open>rnd\<close>: the \<open>k\<close>-th call of the run yields the
  natural \<open>rnd k\<close>, and \<open>Math.floor(Math.random() * n)\<close> is \<open>rnd k mod n\<close>, which
  ranges over exactly \<open>0 .. n - 1\<close>.
\<close>

subsection \<open>GameConfig\<close>

definition BOARD_SIZE :: int where
  "BOARD_SIZE = 10"

record ship_spec =
  stype :: string
  ssize :: int
  scount :: nat

definition SHIPS :: "ship_spec list" where
  "SHIPS = [\<lparr>stype = ''battleship'', ssize = 3, scount = 3\<rparr>]"

definition MAX_PLACEMENT_ATTEMPTS :: nat where
  "MAX_PLACEMENT_ATTEMPTS = 100"

text \<open>
  The errors the classes throw. The source throws \<open>Error\<close> objects told apart by their
  message; the constructors are named after the condition. \<open>TypeError\<close> is the
  engine's own error on reading a property of \<open>undefined\<close> or \<open>null\<close>.
\<close>

datatype error =
    InvalidSize
  | InvalidCoordinate
  | NotPartOfShip
  | AlreadySunk
  | NotInitialized
  | AlreadyInitialized
  | GameOver
  | AlreadyGuessed
  | InvalidPlacement
  | PlacementExhausted
  | TypeError

subsection \<open>Coordinates\<close>

record coord =
  oid :: nat
  row :: int
  col :: int

text \<open>A value handed to the engine from outside: it may be anything.\<close>

datatype jsval = JUndefined | JNull | JNum int | JStr string

datatype jsarg =
    ArgNull
  | ArgUndefined
  | ArgObj nat jsval jsval

fun typeof :: "jsval \<Rightarrow> string" where
  "typeof JUndefined = ''undefined''"
| "typeof JNull = ''object''"
| "typeof (JNum n) = ''number''"
| "typeof (JStr s) = ''string''"

text \<open>An argument object whose two fields are numbers, read as a coordinate.\<close>

definition argCoord :: "coord \<Rightarrow> jsarg" where
  "argCoord c = ArgObj (oid c) (JNum (row c)) (JNum (col c))"

text \<open>Decimal rendering of an integer, as a template literal prints a number.\<close>

definition digit :: "nat \<Rightarrow> char" where
  "digit n = (''0123456789'' ! n)"

fun show_nat :: "nat \<Rightarrow> string" where
  "show_nat n = (if n < 10 then [digit n] else show_nat (n div 10) @ [digit (n mod 10)])"

declare show_nat.simps [simp del]

definition show_int :: "int \<Rightarrow> string" where
  "show_int i = (if i < 0 then ''-'' @ show_nat (nat (- i)) else show_nat (nat i))"

subsection \<open>Ship\<close>

record Ship =
  size_n :: int
  locations :: "coord list"
  hits :: "coord list"

text \<open>
  \<open>Set.prototype.add\<close>: the set keeps insertion order and ignores a member it has.
\<close>

definition set_add :: "'a \<Rightarrow> 'a list \<Rightarrow> 'a list" where
  "set_add x xs = (if x \<in> set xs then xs else xs @ [x])"

definition newShip :: "int \<Rightarrow> error + Ship" where
  "newShip n =
     (if n < 1 \<or> n > 4 then Inl InvalidSize
      else Inr \<lparr>size_n = n, locations = [], hits = []\<rparr>)"

definition isValidLocation :: "coord \<Rightarrow> bool" where
  "isValidLocation l \<longleftrightarrow>
     row l \<ge> 0 \<and> row l < BOARD_SIZE \<and> col l \<ge> 0 \<and> col l < BOARD_SIZE"

definition addLocation :: "coord \<Rightarrow> Ship \<Rightarrow> error + Ship" where
  "addLocation l sh =
     (if \<not> isValidLocation l then Inl InvalidCoordinate
      else Inr (sh\<lparr>locations := set_add l (locations sh)\<rparr>))"

definition isAtLocation :: "Ship \<Rightarrow> coord \<Rightarrow> bool" where
  "isAtLocation sh l \<longleftrightarrow> l \<in> set (locations sh)"

definition isHit :: "Ship \<Rightarrow> coord \<Rightarrow> bool" where
  "isHit sh l \<longleftrightarrow> l \<in> set (hits sh)"

definition isSunk :: "Ship \<Rightarrow> bool" where
  "isSunk sh \<longleftrightarrow> int (length (hits sh)) = size_n sh"

definition hit :: "coord \<Rightarrow> Ship \<Rightarrow> error + Ship" where
  "hit l sh =
     (if \<not> isValidLocation l then Inl InvalidCoordinate
      else if \<not> isAtLocation sh l then Inl NotPartOfShip
      else if isSunk sh then Inl AlreadySunk
      else Inr (sh\<lparr>hits := set_add l (hits sh)\<rparr>))"

text \<open>\<open>locs.forEach(loc => ship.addLocation(loc))\<close>, stopping at the first throw.\<close>

fun addLocations :: "coord list \<Rightarrow> Ship \<Rightarrow> error + Ship" where
  "addLocations [] sh = Inr sh"
| "addLocations (l # ls) sh =
     (case addLocation l sh of Inl e \<Rightarrow> Inl e | Inr sh' \<Rightarrow> addLocations ls sh')"

text \<open>\<open>locs.forEach(loc => ship.hit(loc))\<close>, stopping at the first throw.\<close>

fun hitAll :: "coord list \<Rightarrow> Ship \<Rightarrow> error + Ship" where
  "hitAll [] sh = Inr sh"
| "hitAll (l # ls) sh =
     (case hit l sh of Inl e \<Rightarrow> Inl e | Inr sh' \<Rightarrow> hitAll ls sh')"

subsection \<open>The state of a game and of its AI\<close>

datatype direction = Up | Right | Down | Left

record GameAI =
  lastHit :: "coord option"
  possibleDirections :: "direction list"
  currentDirection :: "direction option"
  possibleShipSizes :: "int set"

text \<open>
  The fields of \<open>GameState\<close>, together with the store of \<open>Ship\<close> objects, the counter of
  object identities and the number of \<open>Math.random()\<close> calls made so far. The two fleet
  arrays and the two guess sets are private and never handed out, so they are held by
  value.
\<close>

record state =
  initialized :: bool
  playerShips :: "nat list"
  cpuShips :: "nat list"
  playerGuesses :: "string set"
  cpuGuesses :: "string set"
  gameAI :: "GameAI option"
  maxPlacementAttempts :: nat
  heap :: "nat \<Rightarrow> Ship option"
  nextId :: nat
  draws :: nat

record guess_result =
  rtype :: string
  coordinates :: coord

definition newGameAI :: GameAI where
  "newGameAI =
     \<lparr>lastHit = None, possibleDirections = [Up, Right, Down, Left],
      currentDirection = None, possibleShipSizes = {4, 3, 2, 1}\<rparr>"

definition newGameState :: state where
  "newGameState =
     \<lparr>initialized = False, playerShips = [], cpuShips = [], playerGuesses = {},
      cpuGuesses = {}, gameAI = None, maxPlacementAttempts = MAX_PLACEMENT_ATTEMPTS,
      heap = (\<lambda>a. None), nextId = 0, draws = 0\<rparr>"

text \<open>\<open>Math.floor(Math.random() * n)\<close>; it is \<open>0\<close> when \<open>n\<close> is \<open>0\<close>.\<close>

definition randomBelow :: "(nat \<Rightarrow> nat) \<Rightarrow> nat \<Rightarrow> state \<Rightarrow> nat \<times> state" where
  "randomBelow rnd n s =
     ((if n = 0 then 0 else rnd (draws s) mod n), s\<lparr>draws := Suc (draws s)\<rparr>)"

subsection \<open>GameState: queries\<close>

definition getGuessKey :: "coord \<Rightarrow> string" where
  "getGuessKey g = show_int (row g) @ '','' @ show_int (col g)"

definition isInitialized :: "state \<Rightarrow> bool" where
  "isInitialized s = initialized s"


definition getCPUShips :: "state \<Rightarrow> nat list" where
  "getCPUShips s = cpuShips s"

definition isCellGuessed :: "state \<Rightarrow> coord \<Rightarrow> bool" where
  "isCellGuessed s g \<longleftrightarrow> getGuessKey g \<in> playerGuesses s"

text \<open>
  A method called through a ship reference. A fleet only holds addresses of ships in
  the store; for an address with no ship the predicates are false.
\<close>

definition shipIsAt :: "state \<Rightarrow> coord \<Rightarrow> nat \<Rightarrow> bool" where
  "shipIsAt s l a = (case heap s a of Some sh \<Rightarrow> isAtLocation sh l | None \<Rightarrow> False)"

definition shipIsSunk :: "state \<Rightarrow> nat \<Rightarrow> bool" where
  "shipIsSunk s a = (case heap s a of Some sh \<Rightarrow> isSunk sh | None \<Rightarrow> False)"

definition findShipAtLocation :: "nat list \<Rightarrow> coord \<Rightarrow> state \<Rightarrow> nat option" where
  "findShipAtLocation ships l s = find (shipIsAt s l) ships"

definition areAllShipsSunk :: "nat list \<Rightarrow> state \<Rightarrow> bool" where
  "areAllShipsSunk ships s = list_all (shipIsSunk s) ships"

definition isGameOver :: "state \<Rightarrow> bool" where
  "isGameOver s =
     (if \<not> initialized s then False
      else areAllShipsSunk (playerShips s) s \<or> areAllShipsSunk (cpuShips s) s)"

definition validateGameState :: "state \<Rightarrow> error option" where
  "validateGameState s =
     (if \<not> initialized s then Some NotInitialized
      else if isGameOver s then Some GameOver
      else None)"

fun validateGuess :: "jsarg \<Rightarrow> error + coord" where
  "validateGuess ArgNull = Inl InvalidCoordinate"
| "validateGuess ArgUndefined = Inl InvalidCoordinate"
| "validateGuess (ArgObj i r c) =
     (if typeof r \<noteq> ''number'' \<or> typeof c \<noteq> ''number'' then Inl InvalidCoordinate
      else case (r, c) of
        (JNum x, JNum y) \<Rightarrow>
          (if x < 0 \<or> x \<ge> BOARD_SIZE \<or> y < 0 \<or> y \<ge> BOARD_SIZE then Inl InvalidCoordinate
           else Inr \<lparr>oid = i, row = x, col = y\<rparr>)
      | _ \<Rightarrow> Inl InvalidCoordinate)"

text \<open>\<open>ship.hit(loc)\<close> on the ship object at an address of the store.\<close>

definition hitShipAt :: "nat \<Rightarrow> coord \<Rightarrow> state \<Rightarrow> (error + unit) \<times> state" where
  "hitShipAt a l s =
     (case heap s a of
        None \<Rightarrow> (Inl TypeError, s)
      | Some sh \<Rightarrow>
          (case hit l sh of
             Inl e \<Rightarrow> (Inl e, s)
           | Inr sh' \<Rightarrow> (Inr (), s\<lparr>heap := (heap s)(a := Some sh')\<rparr>)))"

subsection \<open>GameState: the player's turn\<close>

definition processPlayerGuess :: "jsarg \<Rightarrow> state \<Rightarrow> (error + guess_result) \<times> state" where
  "processPlayerGuess guess s =
     (case validateGameState s of
        Some e \<Rightarrow> (Inl e, s)
      | None \<Rightarrow>
        (case validateGuess guess of
           Inl e \<Rightarrow> (Inl e, s)
         | Inr g \<Rightarrow>
           if getGuessKey g \<in> playerGuesses s then (Inl AlreadyGuessed, s)
           else
             let s1 = s\<lparr>playerGuesses := insert (getGuessKey g) (playerGuesses s)\<rparr> in
             (case findShipAtLocation (cpuShips s1) g s1 of
                Some a \<Rightarrow>
                  (case hitShipAt a g s1 of
                     (Inl e, s2) \<Rightarrow> (Inl e, s2)
                   | (Inr u, s2) \<Rightarrow> (Inr \<lparr>rtype = ''hit'', coordinates = g\<rparr>, s2))
              | None \<Rightarrow> (Inr \<lparr>rtype = ''miss'', coordinates = g\<rparr>, s1))))"

subsection \<open>GameAI\<close>

definition isValidGuess :: "state \<Rightarrow> coord \<Rightarrow> bool" where
  "isValidGuess s g \<longleftrightarrow>
     row g \<ge> 0 \<and> row g < BOARD_SIZE \<and> col g \<ge> 0 \<and> col g < BOARD_SIZE \<and>
     \<not> isCellGuessed s g"

text \<open>
  The board's cells in the order of the two nested loops. Each cell gets a new object,
  whether or not it is kept.
\<close>

definition allCells :: "(int \<times> int) list" where
  "allCells =
     concat (map (\<lambda>r. map (\<lambda>c. (int r, int c)) [0 ..< nat BOARD_SIZE]) [0 ..< nat BOARD_SIZE])"

definition cellObjects :: "nat \<Rightarrow> coord list" where
  "cellObjects i =
     map (\<lambda>(k, (r, c)). \<lparr>oid = i + k, row = r, col = c\<rparr>) (enumerate 0 allCells)"

definition getAvailableCells :: "state \<Rightarrow> coord list \<times> state" where
  "getAvailableCells s =
     (filter (\<lambda>g. \<not> isCellGuessed s g) (cellObjects (nextId s)),
      s\<lparr>nextId := nextId s + length allCells\<rparr>)"

text \<open>
  \<open>availableCells[randomIndex]\<close> is \<open>undefined\<close> (here \<open>None\<close>) when the array is empty.
\<close>

definition getRandomGuess :: "(nat \<Rightarrow> nat) \<Rightarrow> state \<Rightarrow> coord option \<times> state" where
  "getRandomGuess rnd s =
     (let (cells, s1) = getAvailableCells s;
          (i, s2) = randomBelow rnd (length cells) s1
      in ((if i < length cells then Some (cells ! i) else None), s2))"

definition getGuessInDirection :: "coord \<Rightarrow> direction \<Rightarrow> state \<Rightarrow> coord \<times> state" where
  "getGuessInDirection lh d s =
     ((case d of
         Up \<Rightarrow> \<lparr>oid = nextId s, row = row lh - 1, col = col lh\<rparr>
       | Right \<Rightarrow> \<lparr>oid = nextId s, row = row lh, col = col lh + 1\<rparr>
       | Down \<Rightarrow> \<lparr>oid = nextId s, row = row lh + 1, col = col lh\<rparr>
       | Left \<Rightarrow> \<lparr>oid = nextId s, row = row lh, col = col lh - 1\<rparr>),
      s\<lparr>nextId := Suc (nextId s)\<rparr>)"

text \<open>
  \<open>#switchDirection\<close> clears the current direction first and filters with the cleared
  value afterwards: the filter compares every direction with \<open>null\<close>.
\<close>

definition switchDirection :: "GameAI \<Rightarrow> GameAI" where
  "switchDirection ai =
     (let ai1 = ai\<lparr>currentDirection := None\<rparr>
      in ai1\<lparr>possibleDirections :=
               filter (\<lambda>dir. Some dir \<noteq> currentDirection ai1) (possibleDirections ai1)\<rparr>)"

definition resetDirections :: "GameAI \<Rightarrow> GameAI" where
  "resetDirections ai =
     ai\<lparr>possibleDirections := [Up, Right, Down, Left], currentDirection := None\<rparr>"

definition resetHunt :: "GameAI \<Rightarrow> GameAI" where
  "resetHunt ai = resetDirections (ai\<lparr>lastHit := None\<rparr>)"

definition shipSize :: "state \<Rightarrow> nat \<Rightarrow> int" where
  "shipSize s a = (case heap s a of Some sh \<Rightarrow> size_n sh | None \<Rightarrow> 0)"

definition updatePossibleShipSizes :: "state \<Rightarrow> GameAI \<Rightarrow> GameAI" where
  "updatePossibleShipSizes s ai =
     (let sunkShips = filter (shipIsSunk s) (getCPUShips s)
      in ai\<lparr>possibleShipSizes := possibleShipSizes ai - set (map (shipSize s) sunkShips)\<rparr>)"

text \<open>The \<open>for\<close> loop of \<open>#getHuntGuess\<close> over the possible directions, and what follows it.\<close>

fun tryDirections ::
  "(nat \<Rightarrow> nat) \<Rightarrow> direction list \<Rightarrow> coord \<Rightarrow> GameAI \<Rightarrow> state \<Rightarrow>
   coord option \<times> GameAI \<times> state" where
  "tryDirections rnd [] lh ai s =
     (let (g, s1) = getRandomGuess rnd s in (g, resetHunt ai, s1))"
| "tryDirections rnd (d # ds) lh ai s =
     (let (g, s1) = getGuessInDirection lh d s
      in if isValidGuess s1 g then (Some g, ai\<lparr>currentDirection := Some d\<rparr>, s1)
         else tryDirections rnd ds lh ai s1)"

definition getHuntGuess ::
  "(nat \<Rightarrow> nat) \<Rightarrow> GameAI \<Rightarrow> state \<Rightarrow> coord option \<times> GameAI \<times> state" where
  "getHuntGuess rnd ai s =
     (case lastHit ai of
        None \<Rightarrow> (let (g, s1) = getRandomGuess rnd s in (g, ai, s1))
      | Some lh \<Rightarrow>
        (case currentDirection ai of
           Some d \<Rightarrow>
             (let (g, s1) = getGuessInDirection lh d s
              in if isValidGuess s1 g then (Some g, ai, s1)
                 else (let ai1 = switchDirection ai
                       in tryDirections rnd (possibleDirections ai1) lh ai1 s1))
         | None \<Rightarrow> tryDirections rnd (possibleDirections ai) lh ai s))"

definition makeGuess ::
  "(nat \<Rightarrow> nat) \<Rightarrow> GameAI \<Rightarrow> state \<Rightarrow> coord option \<times> GameAI \<times> state" where
  "makeGuess rnd ai s =
     (case lastHit ai of
        Some lh \<Rightarrow> getHuntGuess rnd ai s
      | None \<Rightarrow> (let (g, s1) = getRandomGuess rnd s in (g, ai, s1)))"

definition updateState :: "coord \<Rightarrow> string \<Rightarrow> state \<Rightarrow> GameAI \<Rightarrow> GameAI" where
  "updateState guess result s ai =
     (if result = ''hit'' then
        (let ai1 = updatePossibleShipSizes s (ai\<lparr>lastHit := Some guess\<rparr>)
         in if currentDirection ai1 = None then resetDirections ai1 else ai1)
      else if currentDirection ai \<noteq> None then switchDirection ai
      else ai)"

subsection \<open>GameState: the CPU's turn\<close>

text \<open>
  \<open>processCPUGuess\<close> calls itself when the AI's guess is already in the CPU's guess
  set. The first argument bounds the depth of these calls; \<open>None\<close> means the bound was
  reached before a call returned.
\<close>

fun processCPUGuess ::
  "nat \<Rightarrow> (nat \<Rightarrow> nat) \<Rightarrow> state \<Rightarrow> ((error + guess_result) \<times> state) option" where
  "processCPUGuess 0 rnd s = None"
| "processCPUGuess (Suc n) rnd s =
     (case validateGameState s of
        Some e \<Rightarrow> Some (Inl e, s)
      | None \<Rightarrow>
        (case gameAI s of
           None \<Rightarrow> Some (Inl TypeError, s)
         | Some ai \<Rightarrow>
           (let (g, ai1, s1) = makeGuess rnd ai s;
                s2 = s1\<lparr>gameAI := Some ai1\<rparr>
            in case g of
                 None \<Rightarrow> Some (Inl TypeError, s2)
               | Some guess \<Rightarrow>
                 if getGuessKey guess \<in> cpuGuesses s2 then processCPUGuess n rnd s2
                 else
                   let s3 = s2\<lparr>cpuGuesses := insert (getGuessKey guess) (cpuGuesses s2)\<rparr> in
                   (case findShipAtLocation (playerShips s3) guess s3 of
                      Some a \<Rightarrow>
                        (case hitShipAt a guess s3 of
                           (Inl e, s4) \<Rightarrow> Some (Inl e, s4)
                         | (Inr u, s4) \<Rightarrow>
                             Some (Inr \<lparr>rtype = ''hit'', coordinates = guess\<rparr>,
                                   s4\<lparr>gameAI := Some (updateState guess ''hit'' s4 ai1)\<rparr>))
                    | None \<Rightarrow>
                        Some (Inr \<lparr>rtype = ''miss'', coordinates = guess\<rparr>,
                              s3\<lparr>gameAI := Some (updateState guess ''miss'' s3 ai1)\<rparr>)))))"

subsection \<open>GameState: placing the fleets\<close>

datatype side = Player | CPU

definition fleet :: "side \<Rightarrow> state \<Rightarrow> nat list" where
  "fleet sd s = (case sd of Player \<Rightarrow> playerShips s | CPU \<Rightarrow> cpuShips s)"

text \<open>\<open>fleet.push(ship)\<close>: the ship object enters the store under its address.\<close>

definition pushShip :: "side \<Rightarrow> nat \<Rightarrow> Ship \<Rightarrow> state \<Rightarrow> state" where
  "pushShip sd a sh s =
     (case sd of
        Player \<Rightarrow> s\<lparr>playerShips := playerShips s @ [a], heap := (heap s)(a := Some sh)\<rparr>
      | CPU \<Rightarrow> s\<lparr>cpuShips := cpuShips s @ [a], heap := (heap s)(a := Some sh)\<rparr>)"

fun stepDir :: "direction \<Rightarrow> int \<times> int \<Rightarrow> int \<times> int" where
  "stepDir Up (r, c) = (r - 1, c)"
| "stepDir Right (r, c) = (r, c + 1)"
| "stepDir Down (r, c) = (r + 1, c)"
| "stepDir Left (r, c) = (r, c - 1)"

text \<open>The cells of a ship from its anchor; the first argument is the next object tag.\<close>

fun getShipLocations :: "nat \<Rightarrow> int \<times> int \<Rightarrow> direction \<Rightarrow> nat \<Rightarrow> coord list" where
  "getShipLocations i p d 0 = []"
| "getShipLocations i p d (Suc n) =
     \<lparr>oid = i, row = fst p, col = snd p\<rparr> # getShipLocations (Suc i) (stepDir d p) d n"

definition areLocationsValid :: "coord list \<Rightarrow> bool" where
  "areLocationsValid locs =
     list_all (\<lambda>loc. row loc \<ge> 0 \<and> row loc < BOARD_SIZE \<and> col loc \<ge> 0 \<and> col loc < BOARD_SIZE) locs"

definition doLocationsOverlap :: "coord list \<Rightarrow> nat list \<Rightarrow> state \<Rightarrow> bool" where
  "doLocationsOverlap locs ships s =
     list_ex (\<lambda>a. list_ex (\<lambda>loc. shipIsAt s loc a) locs) ships"

definition placeShip ::
  "Ship \<Rightarrow> int \<times> int \<Rightarrow> direction \<Rightarrow> nat list \<Rightarrow> state \<Rightarrow> (error + Ship) \<times> state" where
  "placeShip ship location d ships s =
     (let locs = getShipLocations (nextId s) location d (nat (size_n ship));
          s1 = s\<lparr>nextId := nextId s + length locs\<rparr>
      in if \<not> areLocationsValid locs then (Inl InvalidPlacement, s1)
         else if doLocationsOverlap locs ships s1 then (Inl InvalidPlacement, s1)
         else (addLocations locs ship, s1))"

definition getRandomLocation :: "(nat \<Rightarrow> nat) \<Rightarrow> state \<Rightarrow> (int \<times> int) \<times> state" where
  "getRandomLocation rnd s =
     (let (r, s1) = randomBelow rnd (nat BOARD_SIZE) s;
          (c, s2) = randomBelow rnd (nat BOARD_SIZE) s1
      in ((int r, int c), s2))"

definition getRandomDirection :: "(nat \<Rightarrow> nat) \<Rightarrow> state \<Rightarrow> direction \<times> state" where
  "getRandomDirection rnd s =
     (let (i, s1) = randomBelow rnd 4 s in ([Up, Right, Down, Left] ! i, s1))"

text \<open>
  The body of the \<open>try\<close> block: a new ship (its address is taken at once), a random
  anchor and direction, the placement, and the push onto the fleet.
\<close>

definition attemptPlace ::
  "(nat \<Rightarrow> nat) \<Rightarrow> side \<Rightarrow> int \<Rightarrow> state \<Rightarrow> (error + unit) \<times> state" where
  "attemptPlace rnd sd sz s =
     (case newShip sz of
        Inl e \<Rightarrow> (Inl e, s)
      | Inr ship \<Rightarrow>
        (let a = nextId s;
             s0 = s\<lparr>nextId := Suc (nextId s)\<rparr>;
             (location, s1) = getRandomLocation rnd s0;
             (d, s2) = getRandomDirection rnd s1
         in case placeShip ship location d (fleet sd s2) s2 of
              (Inl e, s3) \<Rightarrow> (Inl e, s3)
            | (Inr ship1, s3) \<Rightarrow> (Inr (), pushShip sd a ship1 s3)))"

text \<open>
  The \<open>while (!placed && attempts < max)\<close> loop; the second argument is the number of
  attempts left, the result says whether the ship was placed.
\<close>

fun tryPlace :: "(nat \<Rightarrow> nat) \<Rightarrow> nat \<Rightarrow> side \<Rightarrow> int \<Rightarrow> state \<Rightarrow> bool \<times> state" where
  "tryPlace rnd 0 sd sz s = (False, s)"
| "tryPlace rnd (Suc k) sd sz s =
     (case attemptPlace rnd sd sz s of
        (Inr u, s1) \<Rightarrow> (True, s1)
      | (Inl e, s1) \<Rightarrow> tryPlace rnd k sd sz s1)"

text \<open>The loop \<open>for (let i = 0; i < count; i++)\<close>; the second argument counts down.\<close>

fun placeCount :: "(nat \<Rightarrow> nat) \<Rightarrow> nat \<Rightarrow> side \<Rightarrow> int \<Rightarrow> state \<Rightarrow> (error + unit) \<times> state" where
  "placeCount rnd 0 sd sz s = (Inr (), s)"
| "placeCount rnd (Suc n) sd sz s =
     (case tryPlace rnd (maxPlacementAttempts s) sd sz s of
        (True, s1) \<Rightarrow> placeCount rnd n sd sz s1
      | (False, s1) \<Rightarrow> (Inl PlacementExhausted, s1))"

fun placeFleet :: "(nat \<Rightarrow> nat) \<Rightarrow> ship_spec list \<Rightarrow> side \<Rightarrow> state \<Rightarrow> (error + unit) \<times> state" where
  "placeFleet rnd [] sd s = (Inr (), s)"
| "placeFleet rnd (e # es) sd s =
     (case placeCount rnd (scount e) sd (ssize e) s of
        (Inl err, s1) \<Rightarrow> (Inl err, s1)
      | (Inr u, s1) \<Rightarrow> placeFleet rnd es sd s1)"

definition placeShipsForPlayer :: "(nat \<Rightarrow> nat) \<Rightarrow> state \<Rightarrow> (error + unit) \<times> state" where
  "placeShipsForPlayer rnd s = placeFleet rnd SHIPS Player s"

definition placeShipsForCPU :: "(nat \<Rightarrow> nat) \<Rightarrow> state \<Rightarrow> (error + unit) \<times> state" where
  "placeShipsForCPU rnd s = placeFleet rnd SHIPS CPU s"

definition placeShips :: "(nat \<Rightarrow> nat) \<Rightarrow> state \<Rightarrow> (error + unit) \<times> state" where
  "placeShips rnd s =
     (case placeShipsForPlayer rnd s of
        (Inl e, s1) \<Rightarrow> (Inl e, s1)
      | (Inr u, s1) \<Rightarrow> placeShipsForCPU rnd s1)"

definition initialize :: "(nat \<Rightarrow> nat) \<Rightarrow> state \<Rightarrow> (error + unit) \<times> state" where
  "initialize rnd s =
     (if initialized s then (Inl AlreadyInitialized, s)
      else case placeShips rnd s of
             (Inl e, s1) \<Rightarrow> (Inl e, s1)
           | (Inr u, s1) \<Rightarrow> (Inr (), s1\<lparr>gameAI := Some newGameAI, initialized := True\<rparr>))"

subsection \<open>Callers of the getters\<close>





subsection \<open>Games driven through the engine\<close>

text \<open>
  \<open>evolves s t\<close>: the game \<open>t\<close> is reached from \<open>s\<close> by calls of \<open>initialize\<close>,
  \<open>processPlayerGuess\<close> and \<open>processCPUGuess\<close>, with any arguments and any random
  source. A game is reachable when it evolves from a newly constructed \<open>GameState\<close>.
\<close>

inductive evolves :: "state \<Rightarrow> state \<Rightarrow> bool" where
  ev_refl: "evolves s s"
| ev_initialize: "evolves s t \<Longrightarrow> evolves s (snd (initialize rnd t))"
| ev_player: "evolves s t \<Longrightarrow> evolves s (snd (processPlayerGuess guess t))"
| ev_cpu: "evolves s t \<Longrightarrow> processCPUGuess fuel rnd t = Some (r, t') \<Longrightarrow> evolves s t'"

definition reachable :: "state \<Rightarrow> bool" where
  "reachable s = evolves newGameState s"

subsection \<open>Concrete games\<close>

text \<open>
  A random source that anchors the three ships of each fleet at the left edge of rows
  0, 2 and 4, heading right, and yields 0 from then on.
\<close>

definition rndA :: "nat \<Rightarrow> nat" where
  "rndA k = (if k < 18 then [0, 0, 1, 2, 0, 1, 4, 0, 1, 0, 0, 1, 2, 0, 1, 4, 0, 1] ! k else 0)"

definition gameA :: state where
  "gameA = snd (initialize rndA newGameState)"

text \<open>A random source that anchors every ship at (0, 0), heading right.\<close>

definition rndB :: "nat \<Rightarrow> nat" where
  "rndB k = [0, 0, 1] ! (k mod 3)"

definition gameB :: state where
  "gameB = snd (initialize rndB newGameState)"

text \<open>The game \<open>gameA\<close> after the CPU's first turn.\<close>

definition gameA1 :: state where
  "gameA1 = (case processCPUGuess 1 rndA gameA of Some (r, s) \<Rightarrow> s | None \<Rightarrow> gameA)"

text \<open>An AI that has hit (2, 2) and is probing upwards, and one that has just hit (2, 2).\<close>

definition aiUp :: GameAI where
  "aiUp =
     \<lparr>lastHit = Some \<lparr>oid = 0, row = 2, col = 2\<rparr>,
      possibleDirections = [Up, Right, Down, Left],
      currentDirection = Some Up, possibleShipSizes = {4, 3, 2, 1}\<rparr>"

definition aiHit :: GameAI where
  "aiHit =
     \<lparr>lastHit = Some \<lparr>oid = 0, row = 2, col = 2\<rparr>,
      possibleDirections = [Up, Right, Down, Left],
      currentDirection = None, possibleShipSizes = {4, 3, 2, 1}\<rparr>"

text \<open>The key of a board cell, as \<open>#getGuessKey\<close> builds it from a coordinate there.\<close>

definition cellKey :: "int \<times> int \<Rightarrow> string" where
  "cellKey p = show_int (fst p) @ '','' @ show_int (snd p)"

text \<open>
  The game \<open>gameA1\<close> after the player has guessed every cell but (0, 0), each time with
  a guess object of the caller's own.
\<close>

definition playerSweep :: "state \<Rightarrow> coord list \<Rightarrow> state" where
  "playerSweep s gs = foldl (\<lambda>t g. snd (processPlayerGuess (argCoord g) t)) s gs"

definition sweepGuesses :: "coord list" where
  "sweepGuesses =
     map (\<lambda>(k, (r, c)). \<lparr>oid = 1000 + k, row = r, col = c\<rparr>) (enumerate 0 (tl allCells))"

definition gameC :: state where
  "gameC = playerSweep gameA1 sweepGuesses"

subsection \<open>The invariant of a game\<close>

text \<open>
  \<open>ambient s t\<close>: \<open>t\<close> is \<open>s\<close> but for objects allocated and random numbers drawn.
\<close>

definition ambient :: "state \<Rightarrow> state \<Rightarrow> bool" where
  "ambient s t \<longleftrightarrow> t = s\<lparr>nextId := nextId t, draws := draws t\<rparr> \<and> nextId s \<le> nextId t"

text \<open>
  A ship is sound for a set of guessed keys when its locations are as many distinct
  objects as its size, its hits are distinct objects among its locations, and the key
  of every hit is among the guessed keys.
\<close>

definition shipSound :: "string set \<Rightarrow> Ship \<Rightarrow> bool" where
  "shipSound guessed sh \<longleftrightarrow>
     distinct (locations sh) \<and> distinct (hits sh) \<and> set (hits sh) \<subseteq> set (locations sh) \<and>
     int (length (locations sh)) = size_n sh \<and> getGuessKey ` set (hits sh) \<subseteq> guessed"

text \<open>
  No ship is in a fleet twice or in both fleets, the ships of the fleets have been
  allocated, and every CPU ship is in the store and sound for the player's guesses.
\<close>

definition gameInv :: "state \<Rightarrow> bool" where
  "gameInv s \<longleftrightarrow>
     distinct (playerShips s @ cpuShips s) \<and>
     (\<forall>a \<in> set (playerShips s @ cpuShips s). a < nextId s) \<and>
     (\<forall>a \<in> set (cpuShips s). \<exists>sh. heap s a = Some sh \<and> shipSound (playerGuesses s) sh)"


section \<open>Properties\<close>

subsection \<open>Ships\<close>

lemma set_add_new: "x \<notin> set xs \<Longrightarrow> set_add x xs = xs @ [x]"
  by (simp add: set_add_def)

lemma addLocations_append:
  "list_all isValidLocation ls \<Longrightarrow> distinct (locations sh @ ls) \<Longrightarrow>
   addLocations ls sh = Inr (sh\<lparr>locations := locations sh @ ls\<rparr>)"
proof (induction ls arbitrary: sh)
  case Nil
  then show ?case by simp
next
  case (Cons l ls)
  have new: "l \<notin> set (locations sh)" using Cons.prems(2) by auto
  have step: "addLocation l sh = Inr (sh\<lparr>locations := locations sh @ [l]\<rparr>)"
    using Cons.prems(1) new by (simp add: addLocation_def set_add_new)
  have "addLocations ls (sh\<lparr>locations := locations sh @ [l]\<rparr>) =
        Inr (sh\<lparr>locations := locations sh @ [l]\<rparr>\<lparr>locations := (locations sh @ [l]) @ ls\<rparr>)"
    using Cons.IH [of "sh\<lparr>locations := locations sh @ [l]\<rparr>"] Cons.prems by simp
  then show ?case using step by simp
qed

lemma hitAll_append:
  "list_all isValidLocation ls \<Longrightarrow> set ls \<subseteq> set (locations sh) \<Longrightarrow>
   distinct (hits sh @ ls) \<Longrightarrow> int (length (hits sh) + length ls) \<le> size_n sh \<Longrightarrow>
   hitAll ls sh = Inr (sh\<lparr>hits := hits sh @ ls\<rparr>)"
proof (induction ls arbitrary: sh)
  case Nil
  then show ?case by simp
next
  case (Cons l ls)
  have new: "l \<notin> set (hits sh)" using Cons.prems(3) by auto
  have afloat: "\<not> isSunk sh" using Cons.prems(4) by (simp add: isSunk_def)
  have step: "hit l sh = Inr (sh\<lparr>hits := hits sh @ [l]\<rparr>)"
    using Cons.prems(1,2) new afloat by (simp add: hit_def isAtLocation_def set_add_new)
  have "hitAll ls (sh\<lparr>hits := hits sh @ [l]\<rparr>) =
        Inr (sh\<lparr>hits := hits sh @ [l]\<rparr>\<lparr>hits := (hits sh @ [l]) @ ls\<rparr>)"
    using Cons.IH [of "sh\<lparr>hits := hits sh @ [l]\<rparr>"] Cons.prems by simp
  then show ?case using step by simp
qed

text \<open>
  Claim C10. \<open>addLocation\<close> never compares the number of locations with the ship's
  size: on a new ship of size \<open>n\<close>, any list of more than \<open>n\<close> distinct in-bounds
  locations is added without error. On that ship, hitting the first \<open>k < n\<close> of them
  leaves it afloat, and hitting the first \<open>n\<close> makes \<open>isSunk\<close> true although a location
  is still unhit.
\<close>

theorem addLocation_ignores_size:
  assumes new: "newShip n = Inr sh0"
    and valid: "list_all isValidLocation ls"
    and dist: "distinct ls"
    and more: "nat n < length ls"
  shows "\<exists>sh1. addLocations ls sh0 = Inr sh1 \<and> locations sh1 = ls \<and>
           (\<forall>k. k < nat n \<longrightarrow> (\<exists>sh2. hitAll (take k ls) sh1 = Inr sh2 \<and> \<not> isSunk sh2)) \<and>
           (\<exists>sh2. hitAll (take (nat n) ls) sh1 = Inr sh2 \<and> isSunk sh2 \<and>
              (\<exists>l \<in> set (locations sh2). \<not> isHit sh2 l))"
proof -
  from new have sh0: "sh0 = \<lparr>size_n = n, locations = [], hits = []\<rparr>" and n1: "1 \<le> n"
    by (auto simp: newShip_def split: if_splits)
  define sh1 where "sh1 = sh0\<lparr>locations := ls\<rparr>"
  have add: "addLocations ls sh0 = Inr sh1"
    using addLocations_append [of ls sh0] valid dist by (simp add: sh0 sh1_def)
  have hits_take: "hitAll (take k ls) sh1 = Inr (sh1\<lparr>hits := take k ls\<rparr>)" if "k \<le> nat n" for k
  proof -
    have "list_all isValidLocation (take k ls)"
      using valid by (auto simp: list_all_iff dest: in_set_takeD)
    moreover have "set (take k ls) \<subseteq> set (locations sh1)"
      by (auto simp: sh1_def dest: in_set_takeD)
    moreover have "distinct (hits sh1 @ take k ls)"
      using dist by (simp add: sh1_def sh0)
    moreover have "int (length (hits sh1) + length (take k ls)) \<le> size_n sh1"
    proof -
      have "int k \<le> n" using that n1 by linarith
      then show ?thesis using that more by (simp add: sh1_def sh0)
    qed
    ultimately show ?thesis
      using hitAll_append [of "take k ls" sh1] by (simp add: sh1_def sh0)
  qed
  have before: "\<forall>k. k < nat n \<longrightarrow> (\<exists>sh2. hitAll (take k ls) sh1 = Inr sh2 \<and> \<not> isSunk sh2)"
  proof (intro allI impI)
    fix k assume k: "k < nat n"
    then have "hitAll (take k ls) sh1 = Inr (sh1\<lparr>hits := take k ls\<rparr>)"
      using hits_take [of k] by simp
    moreover have "\<not> isSunk (sh1\<lparr>hits := take k ls\<rparr>)"
      using k more by (simp add: isSunk_def sh1_def sh0)
    ultimately show "\<exists>sh2. hitAll (take k ls) sh1 = Inr sh2 \<and> \<not> isSunk sh2" by blast
  qed
  have at_n: "hitAll (take (nat n) ls) sh1 = Inr (sh1\<lparr>hits := take (nat n) ls\<rparr>)"
    using hits_take [of "nat n"] by simp
  have sunk: "isSunk (sh1\<lparr>hits := take (nat n) ls\<rparr>)"
    using more n1 by (simp add: isSunk_def sh1_def sh0)
  have "ls ! nat n \<in> set ls" using more by simp
  moreover have "ls ! nat n \<notin> set (take (nat n) ls)"
  proof
    assume "ls ! nat n \<in> set (take (nat n) ls)"
    then obtain j where j: "j < nat n" "take (nat n) ls ! j = ls ! nat n"
      using more by (auto simp: in_set_conv_nth)
    then have "ls ! j = ls ! nat n" by simp
    then show False using dist j(1) more by (simp add: nth_eq_iff_index_eq)
  qed
  ultimately have unhit: "\<exists>l \<in> set (locations (sh1\<lparr>hits := take (nat n) ls\<rparr>)).
      \<not> isHit (sh1\<lparr>hits := take (nat n) ls\<rparr>) l"
    by (auto simp: sh1_def isHit_def)
  show ?thesis using add before at_n sunk unhit by (auto simp: sh1_def)
qed

theorem addLocation_ignores_size_witness:
  "newShip 1 = Inr \<lparr>size_n = 1, locations = [], hits = []\<rparr> \<and>
   list_all isValidLocation [\<lparr>oid = 0, row = 0, col = 0\<rparr>, \<lparr>oid = 1, row = 0, col = 1\<rparr>] \<and>
   distinct [\<lparr>oid = 0, row = 0, col = 0\<rparr>, \<lparr>oid = 1, row = 0, col = 1\<rparr>] \<and>
   nat 1 < length [\<lparr>oid = 0, row = 0, col = 0\<rparr>, \<lparr>oid = 1, row = 0, col = 1\<rparr>] \<and>
   (\<exists>sh1. addLocations [\<lparr>oid = 0, row = 0, col = 0\<rparr>, \<lparr>oid = 1, row = 0, col = 1\<rparr>]
             \<lparr>size_n = 1, locations = [], hits = []\<rparr> = Inr sh1 \<and>
      (\<exists>sh2. hitAll (take (nat 1) [\<lparr>oid = 0, row = 0, col = 0\<rparr>, \<lparr>oid = 1, row = 0, col = 1\<rparr>]) sh1
               = Inr sh2 \<and> isSunk sh2 \<and> (\<exists>l \<in> set (locations sh2). \<not> isHit sh2 l)))"
proof -
  have new: "newShip 1 = Inr \<lparr>size_n = 1, locations = [], hits = []\<rparr>"
    by (simp add: newShip_def)
  have valid: "list_all isValidLocation [\<lparr>oid = 0, row = 0, col = 0\<rparr>, \<lparr>oid = 1, row = 0, col = 1\<rparr>]"
    by (simp add: isValidLocation_def BOARD_SIZE_def)
  have dist: "distinct [\<lparr>oid = 0, row = 0, col = 0\<rparr>, \<lparr>oid = 1, row = 0, col = 1\<rparr>]"
    by simp
  have more: "nat 1 < length [\<lparr>oid = 0, row = 0, col = 0\<rparr>, \<lparr>oid = 1, row = 0, col = 1\<rparr>]"
    by simp
  from addLocation_ignores_size [OF new valid dist more]
  have "\<exists>sh1. addLocations [\<lparr>oid = 0, row = 0, col = 0\<rparr>, \<lparr>oid = 1, row = 0, col = 1\<rparr>]
             \<lparr>size_n = 1, locations = [], hits = []\<rparr> = Inr sh1 \<and>
      (\<exists>sh2. hitAll (take (nat 1) [\<lparr>oid = 0, row = 0, col = 0\<rparr>, \<lparr>oid = 1, row = 0, col = 1\<rparr>]) sh1
               = Inr sh2 \<and> isSunk sh2 \<and> (\<exists>l \<in> set (locations sh2). \<not> isHit sh2 l))"
    by blast
  with new valid dist more show ?thesis by blast
qed

subsection \<open>The player's turn: errors leave the game as it was\<close>




lemma validateGuess_argCoord: "isValidLocation c \<Longrightarrow> validateGuess (argCoord c) = Inr c"
  by (simp add: argCoord_def isValidLocation_def)

lemma validateGameState_None:
  "initialized s \<Longrightarrow> \<not> isGameOver s \<Longrightarrow> validateGameState s = None"
  by (simp add: validateGameState_def)

lemma reachable_gameA: "reachable gameA"
  unfolding reachable_def gameA_def by (rule ev_initialize) (rule ev_refl)



subsection \<open>The player's turn: a hit needs the ship's own coordinate object\<close>

text \<open>
  Claim C1, evaluated. In the initialized game \<open>gameA\<close>, which is not over, the first
  CPU ship occupies (0, 0), (0, 1) and (0, 2), and (0, 0) has not been guessed. A guess
  object with row 0 and column 0 that is not the ship's own location object is answered
  with a miss: \<open>isAtLocation\<close> looks the object up by reference.
\<close>

theorem processPlayerGuess_misses_occupied_cell:
  "initialized gameA \<and> \<not> isGameOver gameA \<and>
   getGuessKey \<lparr>oid = 999, row = 0, col = 0\<rparr> \<notin> playerGuesses gameA \<and>
   cpuShips gameA = [12, 16, 20] \<and>
   heap gameA 12 =
     Some \<lparr>size_n = 3,
           locations = [\<lparr>oid = 13, row = 0, col = 0\<rparr>, \<lparr>oid = 14, row = 0, col = 1\<rparr>,
                        \<lparr>oid = 15, row = 0, col = 2\<rparr>],
           hits = []\<rparr> \<and>
   fst (processPlayerGuess (ArgObj 999 (JNum 0) (JNum 0)) gameA) =
     Inr \<lparr>rtype = ''miss'', coordinates = \<lparr>oid = 999, row = 0, col = 0\<rparr>\<rparr>"
  by code_simp

subsection \<open>Placement: the overlap check never fires\<close>

text \<open>
  Claim C3, evaluated. With a random source that draws the anchor (0, 0) and the
  direction right every time, \<open>initialize\<close> succeeds, and the first two ships of the
  player's fleet both occupy (0, 0), (0, 1) and (0, 2): \<open>#doLocationsOverlap\<close> asks each
  placed ship for the new coordinate objects, which no ship holds.
\<close>

theorem initialize_places_overlapping_ships:
  "fst (initialize rndB newGameState) = Inr () \<and>
   playerShips gameB = [0, 4, 8] \<and>
   heap gameB 0 =
     Some \<lparr>size_n = 3,
           locations = [\<lparr>oid = 1, row = 0, col = 0\<rparr>, \<lparr>oid = 2, row = 0, col = 1\<rparr>,
                        \<lparr>oid = 3, row = 0, col = 2\<rparr>],
           hits = []\<rparr> \<and>
   heap gameB 4 =
     Some \<lparr>size_n = 3,
           locations = [\<lparr>oid = 5, row = 0, col = 0\<rparr>, \<lparr>oid = 6, row = 0, col = 1\<rparr>,
                        \<lparr>oid = 7, row = 0, col = 2\<rparr>],
           hits = []\<rparr>"
  by code_simp

subsection \<open>The AI after a miss and after a sunk signal\<close>

text \<open>
  Claim C5, evaluated. A new AI that is told of a hit on (2, 2) is \<open>aiHit\<close>, and its next
  guess makes it \<open>aiUp\<close>, probing upwards. After \<open>updateState(g, "miss")\<close> the current
  direction is cleared, but the list of possible directions still holds all four, \<open>Up\<close>
  included.
\<close>

theorem updateState_miss_keeps_direction:
  "updateState \<lparr>oid = 0, row = 2, col = 2\<rparr> ''hit'' gameA newGameAI = aiHit \<and>
   fst (snd (makeGuess rndA aiHit gameA)) = aiUp \<and>
   currentDirection aiUp = Some Up \<and>
   currentDirection (updateState g ''miss'' s aiUp) = None \<and>
   possibleDirections (updateState g ''miss'' s aiUp) = [Up, Right, Down, Left]"
proof -
  have "updateState \<lparr>oid = 0, row = 2, col = 2\<rparr> ''hit'' gameA newGameAI = aiHit \<and>
      fst (snd (makeGuess rndA aiHit gameA)) = aiUp"
    by code_simp
  then show ?thesis by (simp add: updateState_def aiUp_def switchDirection_def)
qed

text \<open>
  Claim C6, evaluated. A new AI that is told of a hit on (2, 2) is \<open>aiHit\<close>.
  \<open>updateState(g, "sunk")\<close> takes the branch of every result other than \<open>"hit"\<close> and,
  with no current direction, changes nothing: the last hit is still set and no size has
  left \<open>possibleShipSizes\<close>.
\<close>

theorem updateState_sunk_keeps_target:
  "updateState \<lparr>oid = 0, row = 2, col = 2\<rparr> ''hit'' gameA newGameAI = aiHit \<and>
   updateState g ''sunk'' s aiHit = aiHit \<and>
   lastHit (updateState g ''sunk'' s aiHit) = Some \<lparr>oid = 0, row = 2, col = 2\<rparr> \<and>
   possibleShipSizes (updateState g ''sunk'' s aiHit) = {4, 3, 2, 1}"
proof -
  have "updateState \<lparr>oid = 0, row = 2, col = 2\<rparr> ''hit'' gameA newGameAI = aiHit"
    by code_simp
  then show ?thesis by (simp add: updateState_def aiHit_def)
qed

subsection \<open>The getters copy the array, not the ships\<close>









subsection \<open>The CPU's turn can retry forever\<close>

lemma getGuessKey_cellKey: "getGuessKey g = cellKey (row g, col g)"
  by (simp add: getGuessKey_def cellKey_def)

lemma cellObjects_cells:
  assumes "g \<in> set (cellObjects i)"
  shows "(row g, col g) \<in> set allCells"
proof -
  from assms obtain k r c where "g = \<lparr>oid = i + k, row = r, col = c\<rparr>"
    and "k < length allCells" and "allCells ! k = (r, c)"
    by (auto simp: cellObjects_def in_set_enumerate_eq)
  then show ?thesis using nth_mem [of k allCells] by simp
qed

lemma cellObjects_nth:
  assumes "k < length allCells"
  shows "\<lparr>oid = i + k, row = fst (allCells ! k), col = snd (allCells ! k)\<rparr> \<in> set (cellObjects i)"
proof -
  have "(k, allCells ! k) \<in> set (enumerate 0 allCells)"
    using assms by (simp add: in_set_enumerate_eq)
  then have "(\<lambda>(k, (r, c)). \<lparr>oid = i + k, row = r, col = c\<rparr>) (k, allCells ! k)
      \<in> set (cellObjects i)"
    unfolding cellObjects_def set_map by (rule imageI)
  then show ?thesis by (simp add: case_prod_beta)
qed

lemma shipIsSunk_heap: "heap t = heap s \<Longrightarrow> shipIsSunk t = shipIsSunk s"
  by (rule ext) (simp add: shipIsSunk_def)

lemma shipIsAt_heap: "heap t = heap s \<Longrightarrow> shipIsAt t = shipIsAt s"
  by (intro ext) (simp add: shipIsAt_def)

lemma isGameOver_cong:
  "initialized t = initialized s \<Longrightarrow> playerShips t = playerShips s \<Longrightarrow>
   cpuShips t = cpuShips s \<Longrightarrow> heap t = heap s \<Longrightarrow> isGameOver t = isGameOver s"
  using shipIsSunk_heap [of t s] by (simp add: isGameOver_def areAllShipsSunk_def)

lemma processCPUGuess_stuck:
  assumes "initialized s" and "\<not> isGameOver s"
    and "gameAI s = Some ai" and "lastHit ai = None"
    and "list_all (\<lambda>p. cellKey p \<in> playerGuesses s \<or> cellKey p \<in> cpuGuesses s) allCells"
    and "\<not> list_all (\<lambda>p. cellKey p \<in> playerGuesses s) allCells"
  shows "processCPUGuess fuel rnd s = None"
  using assms
proof (induction fuel arbitrary: s)
  case 0
  then show ?case by simp
next
  case (Suc n)
  define cells where "cells = filter (\<lambda>g. \<not> isCellGuessed s g) (cellObjects (nextId s))"
  define i where "i = rnd (draws s) mod length cells"
  define s2 where "s2 = s\<lparr>nextId := nextId s + length allCells, draws := Suc (draws s), gameAI := Some ai\<rparr>"
  obtain p where p: "p \<in> set allCells" "cellKey p \<notin> playerGuesses s"
    using Suc.prems(6) by (auto simp: list_all_iff)
  then obtain k where k: "k < length allCells" "allCells ! k = p"
    by (auto simp: in_set_conv_nth)
  have "\<lparr>oid = nextId s + k, row = fst p, col = snd p\<rparr> \<in> set (cellObjects (nextId s))"
    using cellObjects_nth [of k "nextId s"] k by simp
  then have "\<lparr>oid = nextId s + k, row = fst p, col = snd p\<rparr> \<in> set cells"
    using p(2) by (simp add: cells_def isCellGuessed_def getGuessKey_cellKey)
  then have ne: "cells \<noteq> []" by auto
  then have i: "i < length cells" by (simp add: i_def)
  then have mem: "cells ! i \<in> set cells" by simp
  then have open_cell: "cellKey (row (cells ! i), col (cells ! i)) \<notin> playerGuesses s"
    and "cells ! i \<in> set (cellObjects (nextId s))"
    by (auto simp: cells_def isCellGuessed_def getGuessKey_cellKey)
  then have "(row (cells ! i), col (cells ! i)) \<in> set allCells"
    using cellObjects_cells by blast
  then have taken: "getGuessKey (cells ! i) \<in> cpuGuesses s"
    using Suc.prems(5) open_cell by (auto simp: list_all_iff getGuessKey_cellKey)
  have mg: "makeGuess rnd ai s =
      (Some (cells ! i), ai, s\<lparr>nextId := nextId s + length allCells, draws := Suc (draws s)\<rparr>)"
    using Suc.prems(4) ne i
    by (simp add: makeGuess_def getRandomGuess_def getAvailableCells_def randomBelow_def
        cells_def [symmetric] i_def [symmetric])
  have step: "processCPUGuess (Suc n) rnd s = processCPUGuess n rnd s2"
    using Suc.prems(1,2,3) mg taken by (simp add: validateGameState_def s2_def)
  have over: "isGameOver s2 = isGameOver s"
    by (rule isGameOver_cong) (simp_all add: s2_def)
  have "processCPUGuess n rnd s2 = None"
    by (rule Suc.IH) (use Suc.prems over in \<open>simp_all add: s2_def\<close>)
  with step show ?case by simp
qed

lemma processPlayerGuess_miss:
  assumes init: "initialized s" and live: "\<not> isGameOver s"
    and valid: "isValidLocation g"
    and free: "list_all (\<lambda>a. \<not> shipIsAt s g a) (cpuShips s)"
  shows "snd (processPlayerGuess (argCoord g) s) =
         s\<lparr>playerGuesses := insert (getGuessKey g) (playerGuesses s)\<rparr>"
proof -
  define s1 where "s1 = s\<lparr>playerGuesses := insert (getGuessKey g) (playerGuesses s)\<rparr>"
  have ok: "validateGameState s = None" using init live by (rule validateGameState_None)
  have vg: "validateGuess (argCoord g) = Inr g" using valid by (rule validateGuess_argCoord)
  show ?thesis
  proof (cases "getGuessKey g \<in> playerGuesses s")
    case True
    then have "insert (getGuessKey g) (playerGuesses s) = playerGuesses s" by auto
    then show ?thesis using ok vg True by (simp add: processPlayerGuess_def)
  next
    case False
    have "shipIsAt s1 = shipIsAt s" by (rule shipIsAt_heap) (simp add: s1_def)
    then have "findShipAtLocation (cpuShips s1) g s1 = None"
      using free by (simp add: findShipAtLocation_def find_None_iff list_all_iff s1_def)
    then show ?thesis using ok vg False by (simp add: processPlayerGuess_def s1_def)
  qed
qed

lemma playerSweep_misses:
  assumes "initialized s" and "\<not> isGameOver s"
    and "list_all isValidLocation gs"
    and "list_all (\<lambda>g. list_all (\<lambda>a. \<not> shipIsAt s g a) (cpuShips s)) gs"
  shows "playerSweep s gs = s\<lparr>playerGuesses := playerGuesses s \<union> set (map getGuessKey gs)\<rparr>"
  using assms
proof (induction gs arbitrary: s)
  case Nil
  then show ?case by (simp add: playerSweep_def)
next
  case (Cons g gs)
  define t where "t = s\<lparr>playerGuesses := insert (getGuessKey g) (playerGuesses s)\<rparr>"
  have step: "snd (processPlayerGuess (argCoord g) s) = t"
    unfolding t_def using Cons.prems by (intro processPlayerGuess_miss) simp_all
  have at: "shipIsAt t = shipIsAt s" by (rule shipIsAt_heap) (simp add: t_def)
  have over: "isGameOver t = isGameOver s" by (rule isGameOver_cong) (simp_all add: t_def)
  have "playerSweep t gs = t\<lparr>playerGuesses := playerGuesses t \<union> set (map getGuessKey gs)\<rparr>"
    using Cons.prems over at by (intro Cons.IH) (simp_all add: t_def)
  moreover have "playerSweep s (g # gs) = playerSweep t gs"
    using step by (simp add: playerSweep_def)
  ultimately show ?case by (simp add: t_def)
qed

lemma evolves_playerSweep: "evolves s t \<Longrightarrow> evolves s (playerSweep t gs)"
proof (induction gs arbitrary: t)
  case Nil
  then show ?case by (simp add: playerSweep_def)
next
  case (Cons g gs)
  have "evolves s (snd (processPlayerGuess (argCoord g) t))"
    using Cons.prems by (rule ev_player)
  then have "evolves s (playerSweep (snd (processPlayerGuess (argCoord g) t)) gs)"
    by (rule Cons.IH)
  then show ?case by (simp add: playerSweep_def)
qed

lemma gameA1_run:
  "(case processCPUGuess 1 rndA gameA of Some (r, s) \<Rightarrow> True | None \<Rightarrow> False)"
  by code_simp

lemma reachable_gameA1: "reachable gameA1"
proof -
  obtain r where "processCPUGuess 1 rndA gameA = Some (r, gameA1)"
    using gameA1_run unfolding gameA1_def
    by (cases "processCPUGuess 1 rndA gameA") auto
  then show ?thesis using reachable_gameA unfolding reachable_def by (rule ev_cpu [rotated])
qed

lemma reachable_gameC: "reachable gameC"
  using reachable_gameA1 unfolding reachable_def gameC_def by (rule evolves_playerSweep)

lemma gameA1_sweep_facts:
  "initialized gameA1 \<and> \<not> isGameOver gameA1 \<and> playerGuesses gameA1 = {} \<and>
   list_all isValidLocation sweepGuesses \<and>
   list_all (\<lambda>g. list_all (\<lambda>a. \<not> shipIsAt gameA1 g a) (cpuShips gameA1)) sweepGuesses \<and>
   map getGuessKey sweepGuesses = map cellKey (tl allCells)"
  by code_simp

lemma gameC_eq: "gameC = gameA1\<lparr>playerGuesses := set (map cellKey (tl allCells))\<rparr>"
  unfolding gameC_def using playerSweep_misses [of gameA1 sweepGuesses] gameA1_sweep_facts
  by simp

lemma gameC_facts:
  "initialized gameC \<and> \<not> isGameOver gameC \<and> gameAI gameC = Some newGameAI \<and>
   list_all (\<lambda>p. cellKey p \<in> playerGuesses gameC \<or> cellKey p \<in> cpuGuesses gameC) allCells \<and>
   \<not> list_all (\<lambda>p. cellKey p \<in> playerGuesses gameC) allCells"
  unfolding gameC_eq by code_simp

lemma gameC_open: "getGuessKey \<lparr>oid = 0, row = 0, col = 1\<rparr> \<notin> cpuGuesses gameC"
  unfolding gameC_eq by code_simp

text \<open>
  Claim C4, evaluated. The game \<open>gameC\<close> is reachable, initialized and not over, and the
  CPU has guessed only (0, 0), so 99 cells are open to it. The only cell the AI offers is
  (0, 0), the one cell the player has not guessed; \<open>processCPUGuess\<close> finds it in the CPU's guess
  set and calls itself again, whatever the random source yields and however deep the
  calls may go.
\<close>

theorem processCPUGuess_never_returns:
  "reachable gameC \<and> initialized gameC \<and> \<not> isGameOver gameC \<and>
   getGuessKey \<lparr>oid = 0, row = 0, col = 1\<rparr> \<notin> cpuGuesses gameC \<and>
   (\<forall>fuel rnd. processCPUGuess fuel rnd gameC = None)"
proof -
  have "processCPUGuess fuel rnd gameC = None" for fuel rnd
    using gameC_facts processCPUGuess_stuck [of gameC newGameAI fuel rnd]
    by (simp add: newGameAI_def)
  then show ?thesis using reachable_gameC gameC_facts gameC_open by blast
qed

subsection \<open>The AI reads the player's guess set\<close>

text \<open>
  Claim C2, evaluated. In the reachable game \<open>gameA1\<close> the CPU has guessed (0, 0) and
  99 cells are open to it. The next guess of the game's AI, with a random draw of 0, is
  (0, 0) again: \<open>#isValidGuess\<close> and \<open>#getAvailableCells\<close> ask \<open>isCellGuessed\<close>, which
  reads the player's guess set.
\<close>

theorem makeGuess_repeats_cpu_guess:
  "reachable gameA1 \<and> gameAI gameA1 = Some newGameAI \<and> cpuGuesses gameA1 = {''0,0''} \<and>
   fst (makeGuess rndA newGameAI gameA1) = Some \<lparr>oid = 124, row = 0, col = 0\<rparr> \<and>
   getGuessKey \<lparr>oid = 124, row = 0, col = 0\<rparr> \<in> cpuGuesses gameA1"
proof -
  have "gameAI gameA1 = Some newGameAI \<and> cpuGuesses gameA1 = {''0,0''} \<and>
      fst (makeGuess rndA newGameAI gameA1) = Some \<lparr>oid = 124, row = 0, col = 0\<rparr> \<and>
      getGuessKey \<lparr>oid = 124, row = 0, col = 0\<rparr> \<in> cpuGuesses gameA1"
    by code_simp
  with reachable_gameA1 show ?thesis by blast
qed

subsection \<open>Allocation and random draws leave the game alone\<close>

lemma shipSound_mono: "shipSound G sh \<Longrightarrow> G \<subseteq> G' \<Longrightarrow> shipSound G' sh"
  unfolding shipSound_def by blast

lemma gameInv_cong:
  assumes inv: "gameInv s"
    and ps: "playerShips t = playerShips s" and cs: "cpuShips t = cpuShips s"
    and hp: "heap t = heap s" and pg: "playerGuesses s \<subseteq> playerGuesses t"
    and nx: "nextId s \<le> nextId t"
  shows "gameInv t"
proof -
  have d: "distinct (playerShips t @ cpuShips t)"
    using inv ps cs by (simp add: gameInv_def)
  have a: "\<forall>a \<in> set (playerShips t @ cpuShips t). a < nextId t"
  proof
    fix a assume "a \<in> set (playerShips t @ cpuShips t)"
    then have "a < nextId s" using inv ps cs by (simp add: gameInv_def)
    then show "a < nextId t" using nx by simp
  qed
  have c: "\<forall>a \<in> set (cpuShips t). \<exists>sh. heap t a = Some sh \<and> shipSound (playerGuesses t) sh"
  proof
    fix a assume "a \<in> set (cpuShips t)"
    then obtain sh where "heap s a = Some sh" "shipSound (playerGuesses s) sh"
      using inv cs unfolding gameInv_def by auto
    then show "\<exists>sh. heap t a = Some sh \<and> shipSound (playerGuesses t) sh"
      using hp pg shipSound_mono by auto
  qed
  show ?thesis unfolding gameInv_def using d a c by blast
qed

lemma ambient_refl: "ambient s s"
  by (simp add: ambient_def)

lemma ambient_upd: "nextId s \<le> n \<Longrightarrow> ambient s (s\<lparr>nextId := n, draws := d\<rparr>)"
  by (simp add: ambient_def)








subsection \<open>Every step of a game keeps the invariant\<close>











lemma gameInv_guess:
  "gameInv s \<Longrightarrow> gameInv (s\<lparr>playerGuesses := insert k (playerGuesses s)\<rparr>)"
  by (rule gameInv_cong [of s]) auto























subsection \<open>The player's turn: the order of the checks\<close>








end
